theory Spec2Isabelle
  imports Main "HOL-Library.AList"
begin

section \<open>Go strings and streams\<close>

text \<open>
  Go strings and byte slices are byte sequences; a \<^typ>\<open>char\<close> is one byte.
  Byte comparison (\<open>path[1] < s.start[0]\<close>) is comparison of the byte values.
\<close>

type_synonym bytes = string

definition Separator :: char where
  "Separator = CHR ''/''"

definition SeperatorStr :: string where
  "SeperatorStr = [Separator]"

definition byte_lt :: "char \<Rightarrow> char \<Rightarrow> bool" where
  "byte_lt a b = ((of_char a :: nat) < of_char b)"

definition byte_ge :: "char \<Rightarrow> char \<Rightarrow> bool" where
  "byte_ge a b = ((of_char b :: nat) \<le> of_char a)"

text \<open>\<open>strings.HasSuffix(s, "/")\<close>\<close>

definition HasSuffixSep :: "string \<Rightarrow> bool" where
  "HasSuffixSep s = (s \<noteq> [] \<and> last s = Separator)"

text \<open>\<open>strings.Split(s, "/")\<close>: the segments between separators; never empty.\<close>

fun Split :: "string \<Rightarrow> string list" where
  "Split [] = [[]]"
| "Split (c # cs) =
     (if c = Separator then [] # Split cs
      else (case Split cs of w # ws \<Rightarrow> (c # w) # ws | [] \<Rightarrow> [[c]]))"

datatype error =
    ErrAlreadyExist
  | ErrNotFound
  | ErrInvalidName
  | ErrNotSupported
  | ErrDirNotEmpty
  | Errorf string

text \<open>
  An \<open>io.Reader\<close> as the code sees it through \<open>io.Copy\<close>: the bytes it delivers, then
  either \<open>io.EOF\<close> (\<open>None\<close>) or a read error.
\<close>

datatype Reader = Reader bytes "error option"

text \<open>
  An \<open>io.Writer\<close>: the bytes it has accepted so far, and the error it answers a
  \<open>Write\<close> call with, if any (a failing writer accepts nothing).
\<close>

record Writer =
  written :: bytes
  werr :: "error option"

section \<open>Path index\<close>

text \<open>
  The type \<open>*trie.Node\<close>, as far as the file system uses it: pointer identity
  (\<open>nid\<close>) and \<open>Path()\<close>, the key the node was inserted at.
\<close>

record NodeRef =
  nid :: nat
  npath :: string

datatype NodeType = fileType | dirType

text \<open>
  \<open>Metadata\<close> (metadata.go). The field \<open>fs\<close> is never read and is left out. The field
  \<open>node\<close> is set by \<open>setNode\<close> in the same critical section that allocates the
  metadata (\<open>New\<close>, \<open>mkdirAtNode\<close>, \<open>newFileAtNode\<close>) and never again, so the
  model stores it at construction.
\<close>

record Metadata =
  nt :: NodeType
  node :: NodeRef

record Dir =
  Dir_md :: Metadata

text \<open>
  \<open>File\<close>: \<open>faddr\<close> is the address of the \<open>File\<close> object; its \<open>content\<close> slice
  lives in the store of the file system under that address, since \<open>Move\<close> re-registers
  the same object under another key.
\<close>

record File =
  File_md :: Metadata
  faddr :: nat

text \<open>The \<open>interface{}\<close> held by a trie node: a \<open>*Dir\<close> or a \<open>*File\<close>.\<close>

datatype Meta = IsDir Dir | IsFile File

record Node =
  nref :: NodeRef
  meta :: Meta

record Trie =
  entries :: "(string \<times> Node) list"
  next_id :: nat

text \<open>
  The package \<open>github.com/basharal/trie\<close> is not part of the sources. The spec
  describes the Path Index as a map from normalized path strings to nodes with point
  lookup, insertion and removal relative to a starting node, listing of the immediate
  children of a node, and path reconstruction, and assumes it correct. Each of its
  operations below is modelled from those words, on an association list from keys to
  nodes and a counter for fresh node identities.
\<close>

text \<open>Modelled from the spec: \<open>trie.New\<close>, the empty index.\<close>

definition trie_New :: Trie where
  "trie_New = \<lparr>entries = [], next_id = 1\<rparr>"

text \<open>
  Modelled from the spec: \<open>Trie.Root\<close>, the starting node of absolute lookups; no key
  is stored at it and its path is empty.
\<close>

definition trie_Root :: "Trie \<Rightarrow> NodeRef" where
  "trie_Root t = \<lparr>nid = 0, npath = []\<rparr>"

text \<open>
  Modelled from the spec: \<open>Trie.FindAtNode\<close>, point lookup relative to a starting
  node: the key looked up is the path of the starting node followed by \<open>key\<close>.
\<close>

definition FindAtNode :: "Trie \<Rightarrow> string \<Rightarrow> NodeRef \<Rightarrow> Node option" where
  "FindAtNode t key n = map_of (entries t) (npath n @ key)"

text \<open>
  Modelled from the spec: the node that the next insertion at \<open>key\<close> allocates (path
  reconstruction gives \<open>key\<close> back).
\<close>

definition trie_fresh :: "Trie \<Rightarrow> string \<Rightarrow> NodeRef" where
  "trie_fresh t key = \<lparr>nid = next_id t, npath = key\<rparr>"

text \<open>
  Modelled from the spec: \<open>Trie.Add\<close>, insertion of a fresh node carrying \<open>m\<close> at
  \<open>key\<close>; a node already at the key is replaced.
\<close>

definition trie_Add :: "Trie \<Rightarrow> string \<Rightarrow> Meta \<Rightarrow> Trie \<times> NodeRef" where
  "trie_Add t key m =
     (let r = trie_fresh t key
      in (\<lparr>entries = AList.update key \<lparr>nref = r, meta = m\<rparr> (entries t),
           next_id = Suc (next_id t)\<rparr>, r))"

text \<open>Modelled from the spec: \<open>Trie.AddAtNode\<close>, insertion relative to a starting node.\<close>

definition AddAtNode :: "Trie \<Rightarrow> string \<Rightarrow> NodeRef \<Rightarrow> Meta \<Rightarrow> Trie \<times> NodeRef" where
  "AddAtNode t key n m = trie_Add t (npath n @ key) m"

text \<open>
  Modelled from the spec: \<open>Trie.Remove\<close>, removal of the node at \<open>key\<close>; the spec
  says nothing about a key that is not in the index, and the model leaves the index as
  it is then.
\<close>

definition trie_Remove :: "Trie \<Rightarrow> string \<Rightarrow> Trie" where
  "trie_Remove t key = t\<lparr>entries := AList.delete key (entries t)\<rparr>"

text \<open>
  \<open>rest\<close> names an immediate child: one non-empty segment, with or without the
  directory suffix.
\<close>

definition child_name :: "string \<Rightarrow> bool" where
  "child_name rest =
     (rest \<noteq> [] \<and> rest \<noteq> SeperatorStr \<and> Separator \<notin> set (butlast rest))"

definition is_child :: "string \<Rightarrow> string \<Rightarrow> bool" where
  "is_child parent key =
     (take (length parent) key = parent \<and> child_name (drop (length parent) key))"

text \<open>
  Modelled from the spec: \<open>Trie.ListAtNode\<close>, the nodes of the immediate children of
  a node (the listing stops at directory boundaries). The code passes the path it
  looked the node up with as well; the children are those of the node.
\<close>

definition ListAtNode :: "Trie \<Rightarrow> string \<Rightarrow> NodeRef \<Rightarrow> Node list" where
  "ListAtNode t key n = map snd (filter (\<lambda>(k, _). is_child (npath n) k) (entries t))"

section \<open>File content store (file.go)\<close>

text \<open>
  \<open>File.Write\<close>, on the content slice of the file: \<open>bytes.NewBuffer(f.content)\<close>
  starts the buffer with the present content, \<open>io.Copy\<close> writes the stream behind it,
  and the slice is replaced by the buffer only when the copy ended without error.
  The count is the number of bytes copied (an \<open>int64\<close>; a slice cannot hold
  \<open>2^63\<close> bytes, so it is modelled as an unbounded integer).
\<close>

fun File_Write :: "bytes \<Rightarrow> Reader \<Rightarrow> bytes \<times> int \<times> error option" where
  "File_Write content (Reader bs None) = (content @ bs, int (length bs), None)"
| "File_Write content (Reader bs (Some e)) = (content, int (length bs), Some e)"

text \<open>
  \<open>File.Read\<close>: \<open>io.Copy(writer, buf)\<close> hands the whole content to the writer in one
  \<open>Write\<close> call; an empty buffer makes no call.
\<close>

definition File_Read :: "bytes \<Rightarrow> Writer \<Rightarrow> Writer \<times> int \<times> error option" where
  "File_Read content w =
     (if content = [] then (w, 0, None)
      else (case werr w of
              Some e \<Rightarrow> (w, 0, Some e)
            | None \<Rightarrow> (w\<lparr>written := written w @ content\<rparr>, int (length content), None)))"

section \<open>Namespace engine (fs.go)\<close>

text \<open>
  \<open>sync.RWMutex\<close>: held by one writer or by a number of readers. It is not
  reentrant: an acquisition that cannot be granted parks the calling goroutine until a
  holder releases it.
\<close>

record RWMutex =
  writer :: bool
  readers :: nat

definition Lock :: "RWMutex \<Rightarrow> RWMutex option" where
  "Lock m = (if writer m \<or> 0 < readers m then None else Some (m\<lparr>writer := True\<rparr>))"

definition Unlock :: "RWMutex \<Rightarrow> RWMutex" where
  "Unlock m = m\<lparr>writer := False\<rparr>"

definition RLock :: "RWMutex \<Rightarrow> RWMutex option" where
  "RLock m = (if writer m then None else Some (m\<lparr>readers := Suc (readers m)\<rparr>))"

definition RUnlock :: "RWMutex \<Rightarrow> RWMutex" where
  "RUnlock m = m\<lparr>readers := readers m - 1\<rparr>"

record FileSystem =
  trie :: Trie
  mu :: RWMutex
  currentDir :: Dir
  root :: Dir
  content :: "nat \<Rightarrow> bytes"
  next_file :: nat

text \<open>
  What a call does: it returns, with the file system as it leaves it and its results,
  or its goroutine is parked for ever on a lock, with the file system as it is then.
\<close>

datatype 'a outcome = Returns FileSystem 'a | Blocks FileSystem

definition newDir :: "NodeRef \<Rightarrow> Dir" where
  "newDir n = \<lparr>Dir_md = \<lparr>nt = dirType, node = n\<rparr>\<rparr>"

definition newFile :: "nat \<Rightarrow> NodeRef \<Rightarrow> File" where
  "newFile a n = \<lparr>File_md = \<lparr>nt = fileType, node = n\<rparr>, faddr = a\<rparr>"

definition New :: FileSystem where
  "New =
     (let t = trie_New;
          root = newDir (trie_fresh t SeperatorStr);
          (t', n) = trie_Add t SeperatorStr (IsDir root)
      in \<lparr>trie = t', mu = \<lparr>writer = False, readers = 0\<rparr>,
           currentDir = root, root = root, content = (\<lambda>_. []), next_file = 0\<rparr>)"

definition AbsolutePath :: "Metadata \<Rightarrow> string" where
  "AbsolutePath md =
     (let path = npath (node md)
      in if 1 < length path \<and> HasSuffixSep path then butlast path else path)"

definition validateName :: "string \<Rightarrow> error option" where
  "validateName s =
     (if \<exists>name \<in> set (Split s). name = ''.'' \<or> name = ''..''
      then Some ErrInvalidName else None)"

definition isAbs :: "string \<Rightarrow> bool" where
  "isAbs s = (s \<noteq> [] \<and> hd s = Separator)"

definition findNode :: "FileSystem \<Rightarrow> string \<Rightarrow> Node option" where
  "findNode fs path =
     FindAtNode (trie fs) path
       (if isAbs path then trie_Root (trie fs) else node (Dir_md (currentDir fs)))"

definition normalizeDirPath :: "string \<Rightarrow> string" where
  "normalizeDirPath path = (if HasSuffixSep path then path else path @ SeperatorStr)"

definition normalizePath :: "FileSystem \<Rightarrow> string \<Rightarrow> string" where
  "normalizePath fs path =
     (if isAbs path then path else AbsolutePath (Dir_md (currentDir fs)) @ path)"

fun convertNodes :: "Node list \<Rightarrow> File list \<times> Dir list" where
  "convertNodes [] = ([], [])"
| "convertNodes (n # ns) =
     (let (files, dirs) = convertNodes ns
      in (case meta n of IsDir d \<Rightarrow> (files, d # dirs) | IsFile f \<Rightarrow> (f # files, dirs)))"

text \<open>\<open>mkdirAtNode\<close> and \<open>newFileAtNode\<close> run with the lock held by their caller.\<close>

definition mkdirAtNode :: "FileSystem \<Rightarrow> string \<Rightarrow> NodeRef \<Rightarrow> FileSystem \<times> error option" where
  "mkdirAtNode fs path n =
     (if path = [] \<or> \<not> HasSuffixSep path then (fs, Some ErrInvalidName)
      else (case validateName path of
        Some e \<Rightarrow> (fs, Some e)
      | None \<Rightarrow>
          if length (Split path) \<noteq> 2 then (fs, Some ErrNotSupported)
          else if FindAtNode (trie fs) path n \<noteq> None then (fs, Some ErrAlreadyExist)
          else if FindAtNode (trie fs) (butlast path) n \<noteq> None then (fs, Some ErrAlreadyExist)
          else
            (let dir = newDir (trie_fresh (trie fs) (npath n @ path));
                 (t', added) = AddAtNode (trie fs) path n (IsDir dir)
             in (fs\<lparr>trie := t'\<rparr>, None))))"

definition newFileAtNode :: "FileSystem \<Rightarrow> string \<Rightarrow> NodeRef \<Rightarrow> FileSystem \<times> error option" where
  "newFileAtNode fs path n =
     (if path = [] \<or> HasSuffixSep path then (fs, Some ErrInvalidName)
      else (case validateName path of
        Some e \<Rightarrow> (fs, Some e)
      | None \<Rightarrow>
          if length (Split path) \<noteq> 1 then (fs, Some ErrNotSupported)
          else if FindAtNode (trie fs) path n \<noteq> None then (fs, Some ErrAlreadyExist)
          else if FindAtNode (trie fs) (path @ SeperatorStr) n \<noteq> None
            then (fs, Some ErrAlreadyExist)
          else
            (let file = newFile (next_file fs) (trie_fresh (trie fs) (npath n @ path));
                 (t', added) = AddAtNode (trie fs) path n (IsFile file)
             in (fs\<lparr>trie := t', content := (content fs)(next_file fs := []),
                     next_file := Suc (next_file fs)\<rparr>, None))))"

definition unlock :: "FileSystem \<Rightarrow> FileSystem" where
  "unlock fs = fs\<lparr>mu := Unlock (mu fs)\<rparr>"

definition runlock :: "FileSystem \<Rightarrow> FileSystem" where
  "runlock fs = fs\<lparr>mu := RUnlock (mu fs)\<rparr>"

definition CurrentDir :: "FileSystem \<Rightarrow> string outcome" where
  "CurrentDir fs =
     (case RLock (mu fs) of
        None \<Rightarrow> Blocks fs
      | Some m \<Rightarrow>
          (let fs1 = fs\<lparr>mu := m\<rparr>
           in Returns (runlock fs1) (AbsolutePath (Dir_md (currentDir fs1)))))"

definition ChangeDir :: "FileSystem \<Rightarrow> string \<Rightarrow> error option outcome" where
  "ChangeDir fs s0 =
     (let s = normalizeDirPath s0
      in case Lock (mu fs) of
        None \<Rightarrow> Blocks fs
      | Some m \<Rightarrow>
          (let fs1 = fs\<lparr>mu := m\<rparr>
           in case findNode fs1 s of
             None \<Rightarrow> Returns (unlock fs1) (Some ErrNotFound)
           | Some n \<Rightarrow>
               (case meta n of
                  IsFile f \<Rightarrow>
                    Returns (unlock fs1) (Some (Errorf ''directory expected. file given''))
                | IsDir dir \<Rightarrow> Returns (unlock (fs1\<lparr>currentDir := dir\<rparr>)) None)))"

definition MakeDir :: "FileSystem \<Rightarrow> string \<Rightarrow> error option outcome" where
  "MakeDir fs s0 =
     (let s = normalizeDirPath s0
      in case Lock (mu fs) of
        None \<Rightarrow> Blocks fs
      | Some m \<Rightarrow>
          (let fs1 = fs\<lparr>mu := m\<rparr>;
               (fs2, err) =
                 (if isAbs s then mkdirAtNode fs1 (tl s) (node (Dir_md (root fs1)))
                  else mkdirAtNode fs1 s (node (Dir_md (currentDir fs1))))
           in Returns (unlock fs2) err))"

definition NewFile :: "FileSystem \<Rightarrow> string \<Rightarrow> error option outcome" where
  "NewFile fs s =
     (case Lock (mu fs) of
        None \<Rightarrow> Blocks fs
      | Some m \<Rightarrow>
          (let fs1 = fs\<lparr>mu := m\<rparr>;
               (fs2, err) =
                 (if isAbs s then newFileAtNode fs1 (tl s) (node (Dir_md (root fs1)))
                  else newFileAtNode fs1 s (node (Dir_md (currentDir fs1))))
           in Returns (unlock fs2) err))"

definition ListDir ::
  "FileSystem \<Rightarrow> string \<Rightarrow> (File list \<times> Dir list \<times> error option) outcome" where
  "ListDir fs s0 =
     (let s = normalizeDirPath s0
      in case RLock (mu fs) of
        None \<Rightarrow> Blocks fs
      | Some m \<Rightarrow>
          (let fs1 = fs\<lparr>mu := m\<rparr>
           in case findNode fs1 s of
             None \<Rightarrow> Returns (runlock fs1) ([], [], Some ErrNotFound)
           | Some n \<Rightarrow>
               (let (files, dirs) = convertNodes (ListAtNode (trie fs1) s (nref n))
                in Returns (runlock fs1) (files, dirs, None))))"

text \<open>
  \<open>Remove\<close>: the path is tried as it is (a file) and then with the directory suffix.
  Pointers to trie nodes are compared by identity. For a directory the code calls the
  public \<open>ListDir\<close> while it still holds the write lock.
\<close>

definition Remove :: "FileSystem \<Rightarrow> string \<Rightarrow> error option outcome" where
  "Remove fs s0 =
     (let s1 = normalizePath fs s0
      in case Lock (mu fs) of
        None \<Rightarrow> Blocks fs
      | Some m \<Rightarrow>
          (let fs1 = fs\<lparr>mu := m\<rparr>;
               s = (if findNode fs1 s1 = None then normalizeDirPath s1 else s1)
           in case findNode fs1 s of
             None \<Rightarrow> Returns (unlock fs1) (Some ErrNotFound)
           | Some n \<Rightarrow>
               if nid (nref n) = nid (node (Dir_md (root fs1)))
                  \<or> nid (nref n) = nid (node (Dir_md (currentDir fs1)))
               then Returns (unlock fs1) (Some ErrNotSupported)
               else
                 (case meta n of
                    IsFile f \<Rightarrow>
                      Returns (unlock (fs1\<lparr>trie := trie_Remove (trie fs1) s\<rparr>)) None
                  | IsDir d \<Rightarrow>
                      (case ListDir fs1 s of
                         Blocks b \<Rightarrow> Blocks b
                       | Returns fs2 (files, dirs, err) \<Rightarrow>
                           (case err of
                              Some e \<Rightarrow> Returns (unlock fs2) (Some e)
                            | None \<Rightarrow>
                                if length files \<noteq> 0 \<or> length dirs \<noteq> 0
                                then Returns (unlock fs2) (Some ErrDirNotEmpty)
                                else Returns
                                  (unlock (fs2\<lparr>trie := trie_Remove (trie fs2) s\<rparr>))
                                  None)))))"

text \<open>
  \<open>Write\<close> and \<open>Read\<close> hold the read lock only for the lookup. The per-file lock is
  taken and released inside \<open>File.Write\<close> and \<open>File.Read\<close> with no call
  in between, so it is not part of the state.
\<close>

definition Write :: "FileSystem \<Rightarrow> string \<Rightarrow> Reader \<Rightarrow> (int \<times> error option) outcome" where
  "Write fs s reader =
     (case RLock (mu fs) of
        None \<Rightarrow> Blocks fs
      | Some m \<Rightarrow>
          (let fs1 = fs\<lparr>mu := m\<rparr>;
               found = findNode fs1 s;
               fs2 = runlock fs1
           in case found of
             None \<Rightarrow> Returns fs2 (- 1, Some ErrNotFound)
           | Some n \<Rightarrow>
               (case meta n of
                  IsDir d \<Rightarrow>
                    Returns fs2 (- 1, Some (Errorf ''cannot write content on directories''))
                | IsFile file \<Rightarrow>
                    (let (c, cnt, err) = File_Write (content fs2 (faddr file)) reader
                     in Returns (fs2\<lparr>content := (content fs2)(faddr file := c)\<rparr>)
                          (cnt, err)))))"

definition Read ::
  "FileSystem \<Rightarrow> string \<Rightarrow> Writer \<Rightarrow> (Writer \<times> int \<times> error option) outcome" where
  "Read fs s w =
     (case RLock (mu fs) of
        None \<Rightarrow> Blocks fs
      | Some m \<Rightarrow>
          (let fs1 = fs\<lparr>mu := m\<rparr>;
               found = findNode fs1 s;
               fs2 = runlock fs1
           in case found of
             None \<Rightarrow> Returns fs2 (w, - 1, Some ErrNotFound)
           | Some n \<Rightarrow>
               (case meta n of
                  IsDir d \<Rightarrow>
                    Returns fs2 (w, - 1, Some (Errorf ''cannot read content on directories''))
                | IsFile file \<Rightarrow> Returns fs2 (File_Read (content fs2 (faddr file)) w))))"

text \<open>
  \<open>Move\<close>: both names are validated and made absolute before the lock is taken; the
  lookups use the paths as given.
\<close>

definition Move :: "FileSystem \<Rightarrow> string \<Rightarrow> string \<Rightarrow> error option outcome" where
  "Move fs src dst =
     (if validateName src \<noteq> None then Returns fs (Some ErrInvalidName)
      else if validateName dst \<noteq> None then Returns fs (Some ErrInvalidName)
      else
        (let absSrc = normalizePath fs src;
             absDst = normalizePath fs dst
         in case Lock (mu fs) of
           None \<Rightarrow> Blocks fs
         | Some m \<Rightarrow>
             (let fs1 = fs\<lparr>mu := m\<rparr>
              in case findNode fs1 src of
                None \<Rightarrow> Returns (unlock fs1) (Some ErrNotFound)
              | Some srcNode \<Rightarrow>
                  (case findNode fs1 dst of
                     Some dstNode \<Rightarrow> Returns (unlock fs1) (Some ErrAlreadyExist)
                   | None \<Rightarrow>
                       (let t1 = trie_Remove (trie fs1) absSrc;
                            (t2, added) = trie_Add t1 absDst (meta srcNode)
                        in Returns (unlock (fs1\<lparr>trie := t2\<rparr>)) None)))))"

section \<open>Shard server (server.go)\<close>

text \<open>
  Modelled from the spec: the exported \<open>fs.IsAbs\<close>, which server and client call, is
  not in the sources; an absolute path begins with the separator, as for the method
  \<open>isAbs\<close> of fs.go.
\<close>

definition IsAbs :: "string \<Rightarrow> bool" where
  "IsAbs s = isAbs s"

text \<open>Go's \<open>>=\<close> on strings: bytewise lexicographic order.\<close>

fun str_lt :: "string \<Rightarrow> string \<Rightarrow> bool" where
  "str_lt [] [] = False"
| "str_lt [] (y # ys) = True"
| "str_lt (x # xs) [] = False"
| "str_lt (x # xs) (y # ys) = (byte_lt x y \<or> (x = y \<and> str_lt xs ys))"

record Opts =
  Opts_Port :: int
  Opts_StartPrefix :: string
  Opts_EndPrefix :: string

record Server =
  srv_fs :: FileSystem
  start :: string
  endp :: string
  port :: int

definition Server_New :: "Opts \<Rightarrow> error + Server" where
  "Server_New opts =
     (if length (Opts_StartPrefix opts) \<noteq> 1
        then Inl (Errorf ''start prefix must have a single letter'')
      else if length (Opts_EndPrefix opts) \<noteq> 1
        then Inl (Errorf ''end prefix must have a single letter'')
      else if \<not> str_lt (Opts_StartPrefix opts) (Opts_EndPrefix opts)
        then Inl (Errorf ''end prefix must be lexicographically after start prefix'')
      else Inr \<lparr>srv_fs = New, start = Opts_StartPrefix opts, endp = Opts_EndPrefix opts,
                port = Opts_Port opts\<rparr>)"

text \<open>
  \<open>validatePath\<close>: \<open>Valid\<close> is the \<open>nil\<close> error. \<open>s.start[0]\<close> and \<open>s.end[0]\<close>
  panic on an empty prefix, which \<open>New\<close> excludes.
\<close>

datatype vresult = Valid | Invalid string | IndexPanic

definition validatePath :: "Server \<Rightarrow> string \<Rightarrow> vresult" where
  "validatePath s path =
     (if path = [] then Invalid ''empty path''
      else if \<not> IsAbs path then Invalid ''paths must be absolute''
      else if 1 < length path then
        (case start s of
           [] \<Rightarrow> IndexPanic
         | a # _ \<Rightarrow>
             if byte_lt (path ! 1) a then Invalid ''path isn't intended for server''
             else (case endp s of
                     [] \<Rightarrow> IndexPanic
                   | b # _ \<Rightarrow>
                       if byte_ge (path ! 1) b
                       then Invalid ''path isn't intended for server''
                       else Valid))
      else Valid)"

text \<open>
  What a handler does with a request: it answers \<open>codes.InvalidArgument\<close> without
  calling the engine, it answers without calling the engine for another reason, it
  panics, or it calls the engine and its answer is the engine's.
\<close>

datatype 'a rpc =
    InvalidArgument string
  | Early "error option"
  | Panics
  | Engine "'a outcome"

definition invalid_path :: "string \<Rightarrow> string \<Rightarrow> string" where
  "invalid_path path msg = ''invalid path ('' @ path @ ''). '' @ msg"

definition guarded :: "Server \<Rightarrow> string \<Rightarrow> 'a outcome \<Rightarrow> 'a rpc" where
  "guarded s path call =
     (case validatePath s path of
        Invalid msg \<Rightarrow> InvalidArgument (invalid_path path msg)
      | IndexPanic \<Rightarrow> Panics
      | Valid \<Rightarrow> Engine call)"

definition Server_ListDir ::
  "Server \<Rightarrow> string \<Rightarrow> (File list \<times> Dir list \<times> error option) rpc" where
  "Server_ListDir s path = guarded s path (ListDir (srv_fs s) path)"

definition Server_MakeDir :: "Server \<Rightarrow> string \<Rightarrow> error option rpc" where
  "Server_MakeDir s path = guarded s path (MakeDir (srv_fs s) path)"

definition Server_Remove :: "Server \<Rightarrow> string \<Rightarrow> error option rpc" where
  "Server_Remove s path = guarded s path (Remove (srv_fs s) path)"

definition Server_CreateFile :: "Server \<Rightarrow> string \<Rightarrow> error option rpc" where
  "Server_CreateFile s path = guarded s path (NewFile (srv_fs s) path)"

definition Server_ReadFile ::
  "Server \<Rightarrow> string \<Rightarrow> Writer \<Rightarrow> (Writer \<times> int \<times> error option) rpc" where
  "Server_ReadFile s path w = guarded s path (Read (srv_fs s) path w)"

text \<open>
  \<open>WriteFile\<close>: the first message of the stream carries the path (\<open>GetPath\<close> is empty
  for a data message); the rest of the stream is the reader handed to the engine.
\<close>

datatype FilePayload = FilePayload_Path string | FilePayload_Data bytes

datatype recv = RecvEOF | RecvErr error | Recv FilePayload

fun GetPath :: "FilePayload \<Rightarrow> string" where
  "GetPath (FilePayload_Path p) = p"
| "GetPath (FilePayload_Data d) = []"

definition Server_WriteFile :: "Server \<Rightarrow> recv \<Rightarrow> Reader \<Rightarrow> (int \<times> error option) rpc" where
  "Server_WriteFile s first reader =
     (case first of
        RecvEOF \<Rightarrow> Early None
      | RecvErr e \<Rightarrow> Early (Some e)
      | Recv inp \<Rightarrow>
          if GetPath inp = []
          then Early (Some (Errorf ''first message must be the path of the file to write to''))
          else Engine (Write (srv_fs s) (GetPath inp) reader))"

section \<open>Shard router (client)\<close>

record client_Server =
  StartPrefix :: string
  EndPrefix :: string
  Addr :: string

record 'c Client =
  servers :: "client_Server list"
  clients :: "string \<Rightarrow> 'c option"

datatype 'a lookup = Found 'a | Fails error | IndexPanics

text \<open>
  The loop of \<open>clientsForPath\<close> over the shard table, \<open>acc\<close> the addresses
  collected so far. \<open>||\<close> and \<open>&&\<close> evaluate from the left and stop early, so
  \<open>server.EndPrefix[0]\<close> is read only when the lower bound holds.
\<close>

fun clientsLoop :: "client_Server list \<Rightarrow> string \<Rightarrow> string list \<Rightarrow> string list lookup" where
  "clientsLoop [] path acc = Found acc"
| "clientsLoop (server # rest) path acc =
     (if \<not> IsAbs path then Fails (Errorf ''path must be absolute'')
      else if path = SeperatorStr then clientsLoop rest path (acc @ [Addr server])
      else if length path < 2 then IndexPanics
      else (case StartPrefix server of
              [] \<Rightarrow> IndexPanics
            | a # _ \<Rightarrow>
                if \<not> byte_ge (path ! 1) a then clientsLoop rest path acc
                else (case EndPrefix server of
                        [] \<Rightarrow> IndexPanics
                      | b # _ \<Rightarrow>
                          if byte_lt (path ! 1) b
                          then clientsLoop rest path (acc @ [Addr server])
                          else clientsLoop rest path acc)))"

definition clientsForPath :: "'c Client \<Rightarrow> string \<Rightarrow> 'c option list lookup" where
  "clientsForPath c path =
     (case clientsLoop (servers c) path [] of
        Found addrs \<Rightarrow> Found (map (clients c) addrs)
      | Fails e \<Rightarrow> Fails e
      | IndexPanics \<Rightarrow> IndexPanics)"

section \<open>Observations used in the statements\<close>

text \<open>The file system a call leaves behind, whether it returned or not.\<close>

fun final :: "'a outcome \<Rightarrow> FileSystem" where
  "final (Returns fs x) = fs"
| "final (Blocks fs) = fs"

text \<open>Nobody holds the namespace lock.\<close>

definition idle :: "FileSystem \<Rightarrow> bool" where
  "idle fs = (\<not> writer (mu fs) \<and> readers (mu fs) = 0)"

text \<open>The file system with the namespace lock held by a writer.\<close>

definition write_locked :: "FileSystem \<Rightarrow> FileSystem" where
  "write_locked fs = fs\<lparr>mu := (mu fs)\<lparr>writer := True\<rparr>\<rparr>"

text \<open>The lookup found a node that holds a \<open>*File\<close>.\<close>

definition is_file_node :: "Node option \<Rightarrow> bool" where
  "is_file_node r =
     (case r of
        Some n \<Rightarrow> (case meta n of IsFile f \<Rightarrow> True | IsDir d \<Rightarrow> False)
      | None \<Rightarrow> False)"

text \<open>
  The node \<open>Remove\<close> resolves its argument to: the path made absolute, looked up as
  it is and, when that finds nothing, with the directory suffix.
\<close>

definition Remove_target :: "FileSystem \<Rightarrow> string \<Rightarrow> Node option" where
  "Remove_target fs p =
     (let s = normalizePath fs p
      in case findNode fs s of
           Some n \<Rightarrow> Some n
         | None \<Rightarrow> findNode fs (normalizeDirPath s))"

text \<open>The node is the root directory's or the current directory's (pointer identity).\<close>

definition is_root_or_cwd :: "FileSystem \<Rightarrow> Node \<Rightarrow> bool" where
  "is_root_or_cwd fs n =
     (nid (nref n) = nid (node (Dir_md (root fs)))
      \<or> nid (nref n) = nid (node (Dir_md (currentDir fs))))"

text \<open>The index holds the root directory's own node at \<open>/\<close>.\<close>

definition root_present :: "FileSystem \<Rightarrow> bool" where
  "root_present fs =
     (\<exists>n. map_of (entries (trie fs)) SeperatorStr = Some n
          \<and> nid (nref n) = nid (node (Dir_md (root fs))))"

text \<open>
  A name the engine creates nodes for: one non-empty segment that is not reserved.
\<close>

definition valid_name :: "string \<Rightarrow> bool" where
  "valid_name n = (n \<noteq> [] \<and> Separator \<notin> set n \<and> n \<noteq> ''.'' \<and> n \<noteq> ''..'')"

text \<open>
  No file shares its name with a directory of the same parent: when a key and the key
  with the directory suffix are both in the index, the key is itself a directory's.
\<close>

definition no_clash :: "Trie \<Rightarrow> bool" where
  "no_clash t =
     (\<forall>k. map_of (entries t) k \<noteq> None
          \<longrightarrow> map_of (entries t) (k @ SeperatorStr) \<noteq> None
          \<longrightarrow> HasSuffixSep k)"

text \<open>Two small file systems: a fresh one with the directory \<open>/foo/\<close>, and one with the file \<open>/a\<close>.\<close>

definition fs_foo :: FileSystem where
  "fs_foo = final (MakeDir New ''/foo/'')"

definition fs_a :: FileSystem where
  "fs_a = final (NewFile New ''/a'')"



definition fs_afoo :: FileSystem where
  "fs_afoo = final (NewFile fs_foo ''/a'')"

text \<open>A shard server for the range from \<open>a\<close> to \<open>n\<close>, as \<open>Server_New\<close> builds it.\<close>

definition srv_an :: Server where
  "srv_an = \<lparr>srv_fs = New, start = ''a'', endp = ''n'', port = 9800\<rparr>"

section \<open>Locks and lookups\<close>

lemma runlock_RLock: "RLock (mu fs) = Some m \<Longrightarrow> runlock (fs\<lparr>mu := m\<rparr>) = fs"
  by (auto simp: RLock_def runlock_def RUnlock_def split: if_splits)

lemma RLock_free: "\<not> writer (mu fs) \<Longrightarrow> \<exists>m. RLock (mu fs) = Some m"
  by (simp add: RLock_def)

lemma RLock_held: "writer (mu fs) \<Longrightarrow> RLock (mu fs) = None"
  by (simp add: RLock_def)

lemma Lock_held: "writer (mu fs) \<Longrightarrow> Lock (mu fs) = None"
  by (simp add: Lock_def)

lemma Lock_idle: "idle fs \<Longrightarrow> Lock (mu fs) = Some ((mu fs)\<lparr>writer := True\<rparr>)"
  by (simp add: idle_def Lock_def)

lemma unlock_write_locked: "idle fs \<Longrightarrow> unlock (write_locked fs) = fs"
  by (simp add: unlock_def write_locked_def Unlock_def idle_def)

lemma findNode_mu [simp]: "findNode (fs\<lparr>mu := m\<rparr>) p = findNode fs p"
  by (simp add: findNode_def)

lemma normalizePath_mu [simp]: "normalizePath (fs\<lparr>mu := m\<rparr>) p = normalizePath fs p"
  by (simp add: normalizePath_def)


lemma findNode_abs:
  "findNode fs (CHR ''/'' # p) = map_of (entries (trie fs)) (CHR ''/'' # p)"
  by (simp add: findNode_def FindAtNode_def isAbs_def trie_Root_def Separator_def)

text \<open>An operation that finds the write lock held parks its goroutine.\<close>

lemma held_blocks:
  assumes "writer (mu b)"
  shows "ListDir b q = Blocks b" "MakeDir b q = Blocks b" "NewFile b q = Blocks b"
    "ChangeDir b q = Blocks b" "CurrentDir b = Blocks b" "Remove b q = Blocks b"
    "Write b q src = Blocks b" "Read b q w = Blocks b"
  using assms
  by (simp_all add: ListDir_def MakeDir_def NewFile_def ChangeDir_def CurrentDir_def
      Remove_def Write_def Read_def RLock_held Lock_held)

section \<open>The example file systems, evaluated\<close>

lemmas New_defs =
  New_def trie_New_def trie_Add_def trie_fresh_def newDir_def SeperatorStr_def
  Separator_def

lemma New_mu: "mu New = \<lparr>writer = False, readers = 0\<rparr>"
  by (simp add: New_defs Let_def)

lemma New_entries:
  "entries (trie New) =
     [(''/'', \<lparr>nref = \<lparr>nid = 1, npath = ''/''\<rparr>,
              meta = IsDir \<lparr>Dir_md = \<lparr>nt = dirType, node = \<lparr>nid = 1, npath = ''/''\<rparr>\<rparr>\<rparr>\<rparr>)]"
  by (simp add: New_defs Let_def)

lemma New_dirs:
  "root New = \<lparr>Dir_md = \<lparr>nt = dirType, node = \<lparr>nid = 1, npath = ''/''\<rparr>\<rparr>\<rparr>"
  "currentDir New = \<lparr>Dir_md = \<lparr>nt = dirType, node = \<lparr>nid = 1, npath = ''/''\<rparr>\<rparr>\<rparr>"
  by (simp_all add: New_defs Let_def)

lemma New_idle: "idle New"
  by (simp add: idle_def New_mu)

lemmas eval_defs =
  MakeDir_def NewFile_def ChangeDir_def mkdirAtNode_def newFileAtNode_def normalizeDirPath_def
  HasSuffixSep_def isAbs_def validateName_def FindAtNode_def findNode_def trie_Root_def
  AddAtNode_def trie_Add_def trie_fresh_def newDir_def newFile_def Lock_def Unlock_def
  unlock_def Separator_def SeperatorStr_def Let_def

lemma MakeDir_foo: "MakeDir New ''/foo/'' = Returns fs_foo None"
  by (simp add: fs_foo_def eval_defs New_mu New_entries New_dirs)

lemma fs_foo_entries:
  "entries (trie fs_foo) =
     [(''/'', \<lparr>nref = \<lparr>nid = 1, npath = ''/''\<rparr>,
              meta = IsDir \<lparr>Dir_md = \<lparr>nt = dirType, node = \<lparr>nid = 1, npath = ''/''\<rparr>\<rparr>\<rparr>\<rparr>),
      (''/foo/'', \<lparr>nref = \<lparr>nid = 2, npath = ''/foo/''\<rparr>,
              meta = IsDir \<lparr>Dir_md = \<lparr>nt = dirType,
                                       node = \<lparr>nid = 2, npath = ''/foo/''\<rparr>\<rparr>\<rparr>\<rparr>)]"
  by (simp add: fs_foo_def eval_defs New_mu New_entries New_dirs New_defs)

lemma fs_foo_rest:
  "mu fs_foo = \<lparr>writer = False, readers = 0\<rparr>"
  "root fs_foo = root New" "currentDir fs_foo = currentDir New"
  by (simp_all add: fs_foo_def eval_defs New_mu New_entries New_dirs)

lemma fs_foo_counters: "next_id (trie fs_foo) = 3" "next_file fs_foo = 0"
  by (simp_all add: fs_foo_def eval_defs New_mu New_entries New_dirs New_defs)

lemma fs_foo_idle: "idle fs_foo"
  by (simp add: idle_def fs_foo_rest)


lemma fs_a_entries:
  "entries (trie fs_a) =
     [(''/'', \<lparr>nref = \<lparr>nid = 1, npath = ''/''\<rparr>,
              meta = IsDir \<lparr>Dir_md = \<lparr>nt = dirType, node = \<lparr>nid = 1, npath = ''/''\<rparr>\<rparr>\<rparr>\<rparr>),
      (''/a'', \<lparr>nref = \<lparr>nid = 2, npath = ''/a''\<rparr>,
              meta = IsFile \<lparr>File_md = \<lparr>nt = fileType, node = \<lparr>nid = 2, npath = ''/a''\<rparr>\<rparr>,
                             faddr = 0\<rparr>\<rparr>)]"
  by (simp add: fs_a_def eval_defs New_mu New_entries New_dirs New_defs)

lemma fs_a_rest:
  "mu fs_a = \<lparr>writer = False, readers = 0\<rparr>"
  "root fs_a = root New" "currentDir fs_a = currentDir New"
  by (simp_all add: fs_a_def eval_defs New_mu New_entries New_dirs)

lemma fs_a_idle: "idle fs_a"
  by (simp add: idle_def fs_a_rest)



lemma fs_afoo_entries:
  "entries (trie fs_afoo) =
     [(''/'', \<lparr>nref = \<lparr>nid = 1, npath = ''/''\<rparr>,
              meta = IsDir \<lparr>Dir_md = \<lparr>nt = dirType, node = \<lparr>nid = 1, npath = ''/''\<rparr>\<rparr>\<rparr>\<rparr>),
      (''/foo/'', \<lparr>nref = \<lparr>nid = 2, npath = ''/foo/''\<rparr>,
              meta = IsDir \<lparr>Dir_md = \<lparr>nt = dirType,
                                       node = \<lparr>nid = 2, npath = ''/foo/''\<rparr>\<rparr>\<rparr>\<rparr>),
      (''/a'', \<lparr>nref = \<lparr>nid = 3, npath = ''/a''\<rparr>,
              meta = IsFile \<lparr>File_md = \<lparr>nt = fileType, node = \<lparr>nid = 3, npath = ''/a''\<rparr>\<rparr>,
                             faddr = 0\<rparr>\<rparr>)]"
  by (simp add: fs_afoo_def eval_defs fs_foo_entries fs_foo_rest fs_foo_counters New_dirs)

lemma fs_afoo_rest:
  "mu fs_afoo = \<lparr>writer = False, readers = 0\<rparr>"
  "root fs_afoo = root New" "currentDir fs_afoo = currentDir New"
  by (simp_all add: fs_afoo_def eval_defs fs_foo_entries fs_foo_rest New_dirs)

lemma fs_afoo_idle: "idle fs_afoo"
  by (simp add: idle_def fs_afoo_rest)

section \<open>File content\<close>






section \<open>Reading and writing what is not a file\<close>

lemma not_a_file_outcomes:
  assumes free: "\<not> writer (mu fs)"
    and nofile: "\<not> is_file_node (findNode fs p)"
  shows "Write fs p src =
           Returns fs (- 1, Some (if findNode fs p = None then ErrNotFound
                                  else Errorf ''cannot write content on directories''))"
    and "Read fs p w =
           Returns fs (w, - 1, Some (if findNode fs p = None then ErrNotFound
                                     else Errorf ''cannot read content on directories''))"
proof -
  from free obtain m where m: "RLock (mu fs) = Some m"
    using RLock_free by blast
  have r: "runlock (fs\<lparr>mu := m\<rparr>) = fs"
    using m by (rule runlock_RLock)
  have "Write fs p src =
           Returns fs (- 1, Some (if findNode fs p = None then ErrNotFound
                                  else Errorf ''cannot write content on directories''))
        \<and> Read fs p w =
           Returns fs (w, - 1, Some (if findNode fs p = None then ErrNotFound
                                     else Errorf ''cannot read content on directories''))"
  proof (cases "findNode fs p")
    case None
    then show ?thesis using m r by (simp add: Write_def Read_def)
  next
    case (Some n)
    with nofile obtain d where "meta n = IsDir d"
      by (cases "meta n") (auto simp: is_file_node_def)
    then show ?thesis using Some m r by (simp add: Write_def Read_def)
  qed
  then show
    "Write fs p src =
           Returns fs (- 1, Some (if findNode fs p = None then ErrNotFound
                                  else Errorf ''cannot write content on directories''))"
    and "Read fs p w =
           Returns fs (w, - 1, Some (if findNode fs p = None then ErrNotFound
                                     else Errorf ''cannot read content on directories''))"
    by simp_all
qed

text \<open>
  C10. When the lookup of \<open>p\<close> finds no node, or finds a directory, \<open>Write\<close> and
  \<open>Read\<close> return the count \<open>-1\<close> with an error (\<open>ErrNotFound\<close> for no node, the
  directory error otherwise), the file system is exactly as before, and nothing was
  handed to the sink. The read lock must be obtainable, that is, no writer holds the
  namespace lock.
\<close>

theorem Write_Read_not_a_file:
  assumes "\<not> writer (mu fs)" and "\<not> is_file_node (findNode fs p)"
  shows "Write fs p src =
           Returns fs (- 1, Some (if findNode fs p = None then ErrNotFound
                                  else Errorf ''cannot write content on directories''))
         \<and> Read fs p w =
           Returns fs (w, - 1, Some (if findNode fs p = None then ErrNotFound
                                     else Errorf ''cannot read content on directories''))"
  using not_a_file_outcomes [OF assms] by simp

theorem Write_Read_not_a_file_witness:
  "\<not> writer (mu New) \<and> \<not> is_file_node (findNode New ''/'')
   \<and> \<not> is_file_node (findNode New ''/nofile'')
   \<and> Write New ''/'' (Reader ''foobar'' None) =
       Returns New (- 1, Some (Errorf ''cannot write content on directories''))
   \<and> Read New ''/nofile'' \<lparr>written = [], werr = None\<rparr> =
       Returns New (\<lparr>written = [], werr = None\<rparr>, - 1, Some ErrNotFound)"
proof -
  have free: "\<not> writer (mu New)"
    by (simp add: New_mu)
  have root: "findNode New ''/'' \<noteq> None" and d: "\<not> is_file_node (findNode New ''/'')"
    by (simp_all add: findNode_abs New_entries is_file_node_def)
  have missing: "findNode New ''/nofile'' = None"
    by (simp add: findNode_abs New_entries)
  then have n: "\<not> is_file_node (findNode New ''/nofile'')"
    by (simp add: is_file_node_def)
  show ?thesis
    using free d n root missing
      Write_Read_not_a_file [OF free d, of "Reader ''foobar'' None"]
      Write_Read_not_a_file [OF free n, of _ "\<lparr>written = [], werr = None\<rparr>"]
    by simp
qed

section \<open>Round trip on a new file\<close>





section \<open>Creation and names already taken\<close>

lemma Split_no_sep: "Separator \<notin> set n \<Longrightarrow> Split n = [n]"
  by (induction n) auto

lemma Split_dir: "Separator \<notin> set n \<Longrightarrow> Split (n @ SeperatorStr) = [n, []]"
  by (induction n) (auto simp: SeperatorStr_def)

lemma validateName_file: "valid_name n \<Longrightarrow> validateName n = None"
  by (simp add: validateName_def valid_name_def Split_no_sep)

lemma validateName_dir: "valid_name n \<Longrightarrow> validateName (n @ SeperatorStr) = None"
  by (auto simp add: validateName_def valid_name_def Split_dir)

lemma HasSuffixSep_dir [simp]: "HasSuffixSep (n @ SeperatorStr)"
  by (simp add: HasSuffixSep_def SeperatorStr_def)

lemma HasSuffixSep_name: "valid_name n \<Longrightarrow> \<not> HasSuffixSep n"
  unfolding HasSuffixSep_def valid_name_def by (metis last_in_set)

lemma butlast_dir [simp]: "butlast (n @ SeperatorStr) = n"
  by (simp add: SeperatorStr_def)

lemma HasSuffixSep_append: "q \<noteq> [] \<Longrightarrow> HasSuffixSep (P @ q) = HasSuffixSep q"
  by (simp add: HasSuffixSep_def)

lemma butlast_under: "q \<noteq> [] \<Longrightarrow> butlast (P @ q) = P @ butlast q"
  by (simp add: butlast_append)

lemma mkdirAtNode_exists:
  assumes "valid_name n"
    and "FindAtNode (trie fs) n p \<noteq> None \<or> FindAtNode (trie fs) (n @ SeperatorStr) p \<noteq> None"
  shows "mkdirAtNode fs (n @ SeperatorStr) p = (fs, Some ErrAlreadyExist)"
  using assms
  by (auto simp: mkdirAtNode_def validateName_dir Split_dir valid_name_def)

lemma newFileAtNode_exists:
  assumes "valid_name n"
    and "FindAtNode (trie fs) n p \<noteq> None \<or> FindAtNode (trie fs) (n @ SeperatorStr) p \<noteq> None"
  shows "newFileAtNode fs n p = (fs, Some ErrAlreadyExist)"
  using assms HasSuffixSep_name [OF assms(1)]
  by (auto simp: newFileAtNode_def validateName_file Split_no_sep valid_name_def)

text \<open>Registering a directory key whose file form is absent keeps names unshared.\<close>

lemma no_clash_add_dir:
  assumes inv: "no_clash t" and suf: "HasSuffixSep K"
    and nofile: "map_of (entries t) (butlast K) = None"
  shows "no_clash (fst (trie_Add t K m))"
  unfolding no_clash_def
proof (intro allI impI)
  fix k
  assume a: "map_of (entries (fst (trie_Add t K m))) k \<noteq> None"
    and b: "map_of (entries (fst (trie_Add t K m))) (k @ SeperatorStr) \<noteq> None"
  show "HasSuffixSep k"
  proof (cases "k = K")
    case True
    then show ?thesis using suf by simp
  next
    case False
    then have a': "map_of (entries t) k \<noteq> None"
      using a by (simp add: trie_Add_def Let_def update_conv')
    show ?thesis
    proof (cases "k @ SeperatorStr = K")
      case True
      then have "k = butlast K"
        by (auto simp: SeperatorStr_def)
      with a' nofile show ?thesis by simp
    next
      case False
      then have "map_of (entries t) (k @ SeperatorStr) \<noteq> None"
        using b by (simp add: trie_Add_def Let_def update_conv')
      with a' inv show ?thesis
        by (simp add: no_clash_def)
    qed
  qed
qed

text \<open>Registering a file key whose directory form is absent keeps names unshared.\<close>

lemma no_clash_add_file:
  assumes inv: "no_clash t" and suf: "\<not> HasSuffixSep K"
    and nodir: "map_of (entries t) (K @ SeperatorStr) = None"
  shows "no_clash (fst (trie_Add t K m))"
  unfolding no_clash_def
proof (intro allI impI)
  fix k
  assume a: "map_of (entries (fst (trie_Add t K m))) k \<noteq> None"
    and b: "map_of (entries (fst (trie_Add t K m))) (k @ SeperatorStr) \<noteq> None"
  have ne: "k @ SeperatorStr \<noteq> K"
    using suf by (auto simp: HasSuffixSep_def SeperatorStr_def)
  then have b': "map_of (entries t) (k @ SeperatorStr) \<noteq> None"
    using b by (simp add: trie_Add_def Let_def update_conv')
  show "HasSuffixSep k"
  proof (cases "k = K")
    case True
    with b' nodir show ?thesis by simp
  next
    case False
    then have "map_of (entries t) k \<noteq> None"
      using a by (simp add: trie_Add_def Let_def update_conv')
    with b' inv show ?thesis
      by (simp add: no_clash_def)
  qed
qed

lemma mkdirAtNode_no_clash:
  assumes "no_clash (trie fs)"
  shows "no_clash (trie (fst (mkdirAtNode fs path p)))"
proof (cases "snd (mkdirAtNode fs path p)")
  case (Some e)
  then have "fst (mkdirAtNode fs path p) = fs"
    by (auto simp: mkdirAtNode_def Let_def split: if_splits option.splits prod.splits)
  with assms show ?thesis by simp
next
  case None
  then have ne: "path \<noteq> []" and suf: "HasSuffixSep path"
    and nofile: "FindAtNode (trie fs) (butlast path) p = None"
    and st: "trie (fst (mkdirAtNode fs path p)) =
       fst (trie_Add (trie fs) (npath p @ path)
              (IsDir (newDir (trie_fresh (trie fs) (npath p @ path)))))"
    by (auto simp: mkdirAtNode_def Let_def AddAtNode_def
        split: if_splits option.splits prod.splits)
  show ?thesis
    unfolding st
    using assms suf nofile ne
    by (intro no_clash_add_dir)
      (simp_all add: HasSuffixSep_append butlast_under FindAtNode_def)
qed

lemma newFileAtNode_no_clash:
  assumes "no_clash (trie fs)"
  shows "no_clash (trie (fst (newFileAtNode fs path p)))"
proof (cases "snd (newFileAtNode fs path p)")
  case (Some e)
  then have "fst (newFileAtNode fs path p) = fs"
    by (auto simp: newFileAtNode_def Let_def split: if_splits option.splits prod.splits)
  with assms show ?thesis by simp
next
  case None
  then have ne: "path \<noteq> []" and suf: "\<not> HasSuffixSep path"
    and nodir: "FindAtNode (trie fs) (path @ SeperatorStr) p = None"
    and st: "trie (fst (newFileAtNode fs path p)) =
       fst (trie_Add (trie fs) (npath p @ path)
              (IsFile (newFile (next_file fs) (trie_fresh (trie fs) (npath p @ path)))))"
    by (auto simp: newFileAtNode_def Let_def AddAtNode_def
        split: if_splits option.splits prod.splits)
  show ?thesis
    unfolding st
    using assms suf nodir ne
    by (intro no_clash_add_file) (simp_all add: HasSuffixSep_append FindAtNode_def)
qed

lemma MakeDir_no_clash: "no_clash (trie fs) \<Longrightarrow> no_clash (trie (final (MakeDir fs s)))"
  using mkdirAtNode_no_clash [of "fs\<lparr>mu := m\<rparr>" for m]
  by (auto simp: MakeDir_def Let_def unlock_def split: option.splits prod.splits if_splits)
    (metis fst_conv)+

lemma NewFile_no_clash: "no_clash (trie fs) \<Longrightarrow> no_clash (trie (final (NewFile fs s)))"
  using newFileAtNode_no_clash [of "fs\<lparr>mu := m\<rparr>" for m]
  by (auto simp: NewFile_def Let_def unlock_def split: option.splits prod.splits if_splits)
    (metis fst_conv)+

lemma no_clash_New: "no_clash (trie New)"
  by (auto simp: no_clash_def New_entries HasSuffixSep_def Separator_def split: if_splits)

lemma valid_name_not_abs: "valid_name n \<Longrightarrow> \<not> isAbs n \<and> \<not> isAbs (n @ SeperatorStr)"
  by (cases n) (auto simp: valid_name_def isAbs_def)

lemma normalizeDirPath_name: "valid_name n \<Longrightarrow> normalizeDirPath n = n @ SeperatorStr"
  by (simp add: normalizeDirPath_def HasSuffixSep_name)

lemma normalizeDirPath_dir [simp]: "normalizeDirPath (n @ SeperatorStr) = n @ SeperatorStr"
  by (simp add: normalizeDirPath_def)

lemma creation_taken_relative:
  assumes "idle fs" and "valid_name n"
    and "FindAtNode (trie fs) n (node (Dir_md (currentDir fs))) \<noteq> None
         \<or> FindAtNode (trie fs) (n @ SeperatorStr) (node (Dir_md (currentDir fs))) \<noteq> None"
  shows "MakeDir fs n = Returns fs (Some ErrAlreadyExist)
         \<and> MakeDir fs (n @ SeperatorStr) = Returns fs (Some ErrAlreadyExist)
         \<and> NewFile fs n = Returns fs (Some ErrAlreadyExist)"
proof -
  let ?l = "fs\<lparr>mu := (mu fs)\<lparr>writer := True\<rparr>\<rparr>"
  have l: "Lock (mu fs) = Some ((mu fs)\<lparr>writer := True\<rparr>)"
    using assms(1) by (rule Lock_idle)
  have u: "unlock ?l = fs"
    using unlock_write_locked [OF assms(1)] by (simp add: write_locked_def)
  have t: "FindAtNode (trie ?l) n (node (Dir_md (currentDir fs))) \<noteq> None
         \<or> FindAtNode (trie ?l) (n @ SeperatorStr) (node (Dir_md (currentDir fs))) \<noteq> None"
    using assms(3) by simp
  have d: "mkdirAtNode ?l (n @ SeperatorStr) (node (Dir_md (currentDir fs))) = (?l, Some ErrAlreadyExist)"
    by (rule mkdirAtNode_exists [OF assms(2) t])
  have f: "newFileAtNode ?l n (node (Dir_md (currentDir fs))) = (?l, Some ErrAlreadyExist)"
    by (rule newFileAtNode_exists [OF assms(2) t])
  show ?thesis
    using d f valid_name_not_abs [OF assms(2)]
    by (simp add: MakeDir_def NewFile_def l u Let_def normalizeDirPath_name [OF assms(2)])
qed

lemma creation_taken_absolute:
  assumes "idle fs" and "valid_name n"
    and "FindAtNode (trie fs) n (node (Dir_md (root fs))) \<noteq> None
         \<or> FindAtNode (trie fs) (n @ SeperatorStr) (node (Dir_md (root fs))) \<noteq> None"
  shows "MakeDir fs (Separator # n) = Returns fs (Some ErrAlreadyExist)
         \<and> MakeDir fs (Separator # n @ SeperatorStr) = Returns fs (Some ErrAlreadyExist)
         \<and> NewFile fs (Separator # n) = Returns fs (Some ErrAlreadyExist)"
proof -
  let ?l = "fs\<lparr>mu := (mu fs)\<lparr>writer := True\<rparr>\<rparr>"
  have l: "Lock (mu fs) = Some ((mu fs)\<lparr>writer := True\<rparr>)"
    using assms(1) by (rule Lock_idle)
  have u: "unlock ?l = fs"
    using unlock_write_locked [OF assms(1)] by (simp add: write_locked_def)
  have t: "FindAtNode (trie ?l) n (node (Dir_md (root fs))) \<noteq> None
         \<or> FindAtNode (trie ?l) (n @ SeperatorStr) (node (Dir_md (root fs))) \<noteq> None"
    using assms(3) by simp
  have d: "mkdirAtNode ?l (n @ SeperatorStr) (node (Dir_md (root fs))) = (?l, Some ErrAlreadyExist)"
    by (rule mkdirAtNode_exists [OF assms(2) t])
  have f: "newFileAtNode ?l n (node (Dir_md (root fs))) = (?l, Some ErrAlreadyExist)"
    by (rule newFileAtNode_exists [OF assms(2) t])
  have n1: "normalizeDirPath (Separator # n) = Separator # n @ SeperatorStr"
    using HasSuffixSep_name [OF assms(2)] assms(2)
    by (simp add: normalizeDirPath_def HasSuffixSep_def valid_name_def)
  have n2: "normalizeDirPath (Separator # n @ SeperatorStr) = Separator # n @ SeperatorStr"
    by (simp add: normalizeDirPath_def HasSuffixSep_def SeperatorStr_def)
  show ?thesis
    using d f
    by (simp add: MakeDir_def NewFile_def l u Let_def n1 n2 isAbs_def)
qed

text \<open>
  C6. For every parent node \<open>p\<close> and every name \<open>n\<close> (one non-empty segment, not
  \<open>.\<close> or \<open>..\<close>): when a file named \<open>n\<close> or a directory named \<open>n\<close> is registered
  under \<open>p\<close>, both \<open>mkdirAtNode\<close> and \<open>newFileAtNode\<close> fail with \<open>ErrAlreadyExist\<close>
  and change nothing. So do \<open>MakeDir\<close> and \<open>NewFile\<close>, with the lock free, for the
  name under the root (absolute path) and under the current directory (relative path).
  Hence creation keeps the index free of a file and a directory that share a name in
  one parent: \<open>mkdirAtNode\<close>, \<open>newFileAtNode\<close>, \<open>MakeDir\<close> and \<open>NewFile\<close> all
  preserve that property, for every argument.
\<close>

theorem creation_rejects_taken_name:
  "(valid_name n
      \<and> (FindAtNode (trie fs) n p \<noteq> None \<or> FindAtNode (trie fs) (n @ SeperatorStr) p \<noteq> None)
     \<longrightarrow> mkdirAtNode fs (n @ SeperatorStr) p = (fs, Some ErrAlreadyExist)
         \<and> newFileAtNode fs n p = (fs, Some ErrAlreadyExist))
   \<and> (idle fs \<and> valid_name n
      \<and> (FindAtNode (trie fs) n (node (Dir_md (root fs))) \<noteq> None
          \<or> FindAtNode (trie fs) (n @ SeperatorStr) (node (Dir_md (root fs))) \<noteq> None)
     \<longrightarrow> MakeDir fs (Separator # n) = Returns fs (Some ErrAlreadyExist)
         \<and> MakeDir fs (Separator # n @ SeperatorStr) = Returns fs (Some ErrAlreadyExist)
         \<and> NewFile fs (Separator # n) = Returns fs (Some ErrAlreadyExist))
   \<and> (idle fs \<and> valid_name n
      \<and> (FindAtNode (trie fs) n (node (Dir_md (currentDir fs))) \<noteq> None
          \<or> FindAtNode (trie fs) (n @ SeperatorStr) (node (Dir_md (currentDir fs))) \<noteq> None)
     \<longrightarrow> MakeDir fs n = Returns fs (Some ErrAlreadyExist)
         \<and> MakeDir fs (n @ SeperatorStr) = Returns fs (Some ErrAlreadyExist)
         \<and> NewFile fs n = Returns fs (Some ErrAlreadyExist))
   \<and> (no_clash (trie fs)
     \<longrightarrow> no_clash (trie (fst (mkdirAtNode fs path p)))
         \<and> no_clash (trie (fst (newFileAtNode fs path p)))
         \<and> no_clash (trie (final (MakeDir fs s)))
         \<and> no_clash (trie (final (NewFile fs s))))"
proof -
  have "valid_name n
      \<and> (FindAtNode (trie fs) n p \<noteq> None \<or> FindAtNode (trie fs) (n @ SeperatorStr) p \<noteq> None)
     \<longrightarrow> mkdirAtNode fs (n @ SeperatorStr) p = (fs, Some ErrAlreadyExist)
         \<and> newFileAtNode fs n p = (fs, Some ErrAlreadyExist)"
    using mkdirAtNode_exists newFileAtNode_exists by blast
  moreover have "idle fs \<and> valid_name n
      \<and> (FindAtNode (trie fs) n (node (Dir_md (root fs))) \<noteq> None
          \<or> FindAtNode (trie fs) (n @ SeperatorStr) (node (Dir_md (root fs))) \<noteq> None)
     \<longrightarrow> MakeDir fs (Separator # n) = Returns fs (Some ErrAlreadyExist)
         \<and> MakeDir fs (Separator # n @ SeperatorStr) = Returns fs (Some ErrAlreadyExist)
         \<and> NewFile fs (Separator # n) = Returns fs (Some ErrAlreadyExist)"
    using creation_taken_absolute [of fs n] by blast
  moreover have "idle fs \<and> valid_name n
      \<and> (FindAtNode (trie fs) n (node (Dir_md (currentDir fs))) \<noteq> None
          \<or> FindAtNode (trie fs) (n @ SeperatorStr) (node (Dir_md (currentDir fs))) \<noteq> None)
     \<longrightarrow> MakeDir fs n = Returns fs (Some ErrAlreadyExist)
         \<and> MakeDir fs (n @ SeperatorStr) = Returns fs (Some ErrAlreadyExist)
         \<and> NewFile fs n = Returns fs (Some ErrAlreadyExist)"
    using creation_taken_relative [of fs n] by blast
  moreover have "no_clash (trie fs)
     \<longrightarrow> no_clash (trie (fst (mkdirAtNode fs path p)))
         \<and> no_clash (trie (fst (newFileAtNode fs path p)))
         \<and> no_clash (trie (final (MakeDir fs s)))
         \<and> no_clash (trie (final (NewFile fs s)))"
    using mkdirAtNode_no_clash newFileAtNode_no_clash MakeDir_no_clash NewFile_no_clash
    by blast
  ultimately show ?thesis by blast
qed

theorem creation_rejects_taken_name_witness:
  "valid_name ''a'' \<and> idle fs_a \<and> valid_name ''foo'' \<and> idle fs_foo
   \<and> FindAtNode (trie fs_a) ''a'' (node (Dir_md (root fs_a))) \<noteq> None
   \<and> FindAtNode (trie fs_foo) ''foo/'' (node (Dir_md (root fs_foo))) \<noteq> None
   \<and> mkdirAtNode fs_a ''a/'' (node (Dir_md (root fs_a))) = (fs_a, Some ErrAlreadyExist)
   \<and> newFileAtNode fs_a ''a'' (node (Dir_md (root fs_a))) = (fs_a, Some ErrAlreadyExist)
   \<and> MakeDir fs_a ''/a'' = Returns fs_a (Some ErrAlreadyExist)
   \<and> MakeDir fs_a ''a/'' = Returns fs_a (Some ErrAlreadyExist)
   \<and> NewFile fs_foo ''/foo'' = Returns fs_foo (Some ErrAlreadyExist)
   \<and> NewFile fs_foo ''foo'' = Returns fs_foo (Some ErrAlreadyExist)
   \<and> no_clash (trie New)
   \<and> no_clash (trie (final (NewFile New ''/a'')))
   \<and> no_clash (trie (final (MakeDir New ''/foo/'')))"
proof -
  have v: "valid_name ''a''" "valid_name ''foo''"
    by (simp_all add: valid_name_def Separator_def)
  have e: "FindAtNode (trie fs_a) ''a'' (node (Dir_md (root fs_a))) \<noteq> None"
    "FindAtNode (trie fs_a) ''a'' (node (Dir_md (currentDir fs_a))) \<noteq> None"
    by (simp_all add: FindAtNode_def fs_a_entries fs_a_rest New_dirs)
  have e': "FindAtNode (trie fs_foo) ''foo/'' (node (Dir_md (root fs_foo))) \<noteq> None"
    "FindAtNode (trie fs_foo) ''foo/'' (node (Dir_md (currentDir fs_foo))) \<noteq> None"
    by (simp_all add: FindAtNode_def fs_foo_entries fs_foo_rest New_dirs)
  have d: "''a'' @ SeperatorStr = ''a/''" "''foo'' @ SeperatorStr = ''foo/''"
    "Separator # ''a'' = ''/a''" "Separator # ''foo'' = ''/foo''"
    by (simp_all add: SeperatorStr_def Separator_def)
  have r: "mkdirAtNode fs_a (''a'' @ SeperatorStr) (node (Dir_md (root fs_a)))
             = (fs_a, Some ErrAlreadyExist)
           \<and> newFileAtNode fs_a ''a'' (node (Dir_md (root fs_a))) = (fs_a, Some ErrAlreadyExist)
           \<and> MakeDir fs_a (Separator # ''a'') = Returns fs_a (Some ErrAlreadyExist)
           \<and> MakeDir fs_a (''a'' @ SeperatorStr) = Returns fs_a (Some ErrAlreadyExist)"
    using v e fs_a_idle
      creation_rejects_taken_name [of "''a''" fs_a "node (Dir_md (root fs_a))"]
    by blast
  have r': "NewFile fs_foo (Separator # ''foo'') = Returns fs_foo (Some ErrAlreadyExist)
           \<and> NewFile fs_foo ''foo'' = Returns fs_foo (Some ErrAlreadyExist)"
    using v e' [folded d] fs_foo_idle creation_rejects_taken_name [of "''foo''" fs_foo]
    by blast
  have c: "no_clash (trie (final (NewFile New ''/a'')))"
    "no_clash (trie (final (MakeDir New ''/foo/'')))"
    using no_clash_New creation_rejects_taken_name [of _ New _ _ "''/a''"]
      creation_rejects_taken_name [of _ New _ _ "''/foo/''"]
    by blast+
  show ?thesis
    using v e(1) e'(1) fs_a_idle fs_foo_idle no_clash_New r [unfolded d] r' [unfolded d] c
    by blast
qed

section \<open>Remove\<close>

text \<open>
  \<open>Remove\<close> entered with the lock free, by the node its lookup finds. For a
  directory the nested \<open>ListDir\<close> asks for the read lock while the write lock of the
  same call is held.
\<close>

lemma Remove_unfold:
  assumes "idle fs"
  shows "Remove fs p =
     (case Remove_target fs p of
        None \<Rightarrow> Returns fs (Some ErrNotFound)
      | Some n \<Rightarrow>
          if is_root_or_cwd fs n then Returns fs (Some ErrNotSupported)
          else (case meta n of
                  IsFile f \<Rightarrow>
                    Returns (fs\<lparr>trie := trie_Remove (trie fs)
                       (if findNode fs (normalizePath fs p) = None
                        then normalizeDirPath (normalizePath fs p)
                        else normalizePath fs p)\<rparr>) None
                | IsDir d \<Rightarrow> Blocks (write_locked fs)))"
proof -
  have l: "Lock (mu fs) = Some ((mu fs)\<lparr>writer := True\<rparr>)"
    using assms by (rule Lock_idle)
  have u: "unlock (fs\<lparr>mu := (mu fs)\<lparr>writer := True\<rparr>\<rparr>) = fs"
    using unlock_write_locked [OF assms] by (simp add: write_locked_def)
  have u': "\<And>t. unlock (fs\<lparr>mu := (mu fs)\<lparr>writer := True\<rparr>, trie := t\<rparr>) = fs\<lparr>trie := t\<rparr>"
    using assms by (simp add: unlock_def Unlock_def idle_def)
  have b: "\<And>s. ListDir (fs\<lparr>mu := (mu fs)\<lparr>writer := True\<rparr>\<rparr>) s = Blocks (write_locked fs)"
    by (simp add: held_blocks write_locked_def)
  show ?thesis
    unfolding Remove_def Let_def l option.case
    by (cases "findNode fs (normalizePath fs p)")
      (auto simp: Remove_target_def Let_def u u' b is_root_or_cwd_def
        split: option.splits Meta.splits)
qed


lemma Remove_directory_blocks:
  assumes "idle fs" and "Remove_target fs p = Some n" and "\<not> is_root_or_cwd fs n"
    and "meta n = IsDir d"
  shows "Remove fs p = Blocks (write_locked fs)"
  using assms by (simp add: Remove_unfold)

lemma Remove_target_write_locked: "Remove_target (write_locked fs) p = Remove_target fs p"
  by (simp add: write_locked_def Remove_target_def Let_def split: option.splits)



lemma root_present_New: "root_present New"
  by (simp add: root_present_def New_entries New_dirs SeperatorStr_def Separator_def)

text \<open>The operations other than \<open>Move\<close> keep the root registered as well.\<close>

lemma mkdirAtNode_root_present:
  assumes "root_present fs"
  shows "root_present (fst (mkdirAtNode fs path p))"
proof (cases "snd (mkdirAtNode fs path p)")
  case (Some e)
  then have "fst (mkdirAtNode fs path p) = fs"
    by (auto simp: mkdirAtNode_def Let_def split: if_splits option.splits prod.splits)
  with assms show ?thesis by simp
next
  case None
  then have fresh: "map_of (entries (trie fs)) (npath p @ path) = None"
    and st: "fst (mkdirAtNode fs path p) =
       fs\<lparr>trie := fst (trie_Add (trie fs) (npath p @ path)
              (IsDir (newDir (trie_fresh (trie fs) (npath p @ path)))))\<rparr>"
    by (auto simp: mkdirAtNode_def Let_def AddAtNode_def FindAtNode_def
        split: if_splits option.splits prod.splits)
  from assms fresh have "npath p @ path \<noteq> SeperatorStr"
    by (auto simp: root_present_def)
  then show ?thesis
    using assms unfolding st
    by (simp add: root_present_def trie_Add_def Let_def update_conv')
qed

lemma newFileAtNode_root_present:
  assumes "root_present fs"
  shows "root_present (fst (newFileAtNode fs path p))"
proof (cases "snd (newFileAtNode fs path p)")
  case (Some e)
  then have "fst (newFileAtNode fs path p) = fs"
    by (auto simp: newFileAtNode_def Let_def split: if_splits option.splits prod.splits)
  with assms show ?thesis by simp
next
  case None
  then have fresh: "map_of (entries (trie fs)) (npath p @ path) = None"
    and st: "trie (fst (newFileAtNode fs path p)) =
       fst (trie_Add (trie fs) (npath p @ path)
              (IsFile (newFile (next_file fs) (trie_fresh (trie fs) (npath p @ path)))))"
    and rt: "root (fst (newFileAtNode fs path p)) = root fs"
    by (auto simp: newFileAtNode_def Let_def AddAtNode_def FindAtNode_def
        split: if_splits option.splits prod.splits)
  from assms fresh have "npath p @ path \<noteq> SeperatorStr"
    by (auto simp: root_present_def)
  then show ?thesis
    using assms unfolding root_present_def st rt
    by (simp add: trie_Add_def Let_def update_conv')
qed

lemma root_present_mu [simp]: "root_present (fs\<lparr>mu := m\<rparr>) = root_present fs"
  by (simp add: root_present_def)

lemma root_present_kept:
  assumes "root_present fs"
  shows "root_present (final (MakeDir fs s))" "root_present (final (NewFile fs s))"
    "root_present (final (ChangeDir fs s))" "root_present (final (ListDir fs s))"
    "root_present (final (Write fs s src))" "root_present (final (Read fs s w))"
proof -
  show "root_present (final (MakeDir fs s))"
    using assms mkdirAtNode_root_present [of "fs\<lparr>mu := m\<rparr>" for m]
    by (auto simp: MakeDir_def Let_def unlock_def split: option.splits prod.splits if_splits)
      (metis fst_conv)+
  show "root_present (final (NewFile fs s))"
    using assms newFileAtNode_root_present [of "fs\<lparr>mu := m\<rparr>" for m]
    by (auto simp: NewFile_def Let_def unlock_def split: option.splits prod.splits if_splits)
      (metis fst_conv)+
  show "root_present (final (ChangeDir fs s))"
    using assms
    by (auto simp: ChangeDir_def Let_def unlock_def root_present_def
        split: option.splits Meta.splits)
  show "root_present (final (ListDir fs s))"
    using assms
    by (auto simp: ListDir_def Let_def runlock_def root_present_def
        split: option.splits prod.splits)
  show "root_present (final (Write fs s src))"
    using assms
    by (auto simp: Write_def Let_def runlock_def root_present_def
        split: option.splits prod.splits Meta.splits)
  show "root_present (final (Read fs s w))"
    using assms
    by (auto simp: Read_def Let_def runlock_def root_present_def
        split: option.splits prod.splits Meta.splits)
qed



text \<open>
  C3, on the code: with the namespace lock free, \<open>Remove\<close> of a path that resolves to
  a directory other than the root and the current directory never returns, whether the
  directory has children or not. It neither fails with \<open>ErrDirNotEmpty\<close> nor
  succeeds: its goroutine is parked in the nested \<open>ListDir\<close>, the write lock stays
  held, and the directory stays registered.
\<close>

theorem Remove_directory_never_returns:
  assumes "idle fs" and "Remove_target fs p = Some n" and "\<not> is_root_or_cwd fs n"
    and "meta n = IsDir d"
  shows "Remove fs p = Blocks (write_locked fs)
         \<and> (\<forall>fs' r. Remove fs p \<noteq> Returns fs' r)
         \<and> Remove_target (final (Remove fs p)) p = Some n"
  using Remove_directory_blocks [OF assms] assms(2)
  by (simp add: Remove_target_write_locked)

theorem Remove_directory_never_returns_witness:
  "idle fs_foo \<and> ListAtNode (trie fs_foo) ''/foo/'' \<lparr>nid = 2, npath = ''/foo/''\<rparr> = []
   \<and> Remove fs_foo ''/foo/'' = Blocks (write_locked fs_foo)
   \<and> Remove fs_foo ''/foo/'' \<noteq> Returns fs_foo None
   \<and> Remove fs_foo ''/foo/'' \<noteq> Returns fs_foo (Some ErrDirNotEmpty)"
proof -
  let ?foo = "\<lparr>nref = \<lparr>nid = 2, npath = ''/foo/''\<rparr>,
               meta = IsDir \<lparr>Dir_md = \<lparr>nt = dirType,
                                        node = \<lparr>nid = 2, npath = ''/foo/''\<rparr>\<rparr>\<rparr>\<rparr>"
  have t: "Remove_target fs_foo ''/foo/'' = Some ?foo"
    by (simp add: Remove_target_def normalizePath_def isAbs_def findNode_abs
        fs_foo_entries Separator_def Let_def)
  have c: "\<not> is_root_or_cwd fs_foo ?foo"
    by (simp add: is_root_or_cwd_def fs_foo_rest New_dirs)
  have m: "meta ?foo = IsDir \<lparr>Dir_md = \<lparr>nt = dirType,
                                         node = \<lparr>nid = 2, npath = ''/foo/''\<rparr>\<rparr>\<rparr>"
    by simp
  have e: "ListAtNode (trie fs_foo) ''/foo/'' \<lparr>nid = 2, npath = ''/foo/''\<rparr> = []"
    by (simp add: ListAtNode_def fs_foo_entries is_child_def child_name_def)
  show ?thesis
    using fs_foo_idle e Remove_directory_never_returns [OF fs_foo_idle t c m]
    by simp
qed

text \<open>
  C9, on the code: with the namespace lock free, \<open>Remove\<close> of a directory other than
  the root and the current directory does not complete: it parks with the write lock
  held. In the file system it leaves, every other operation issued against the engine
  (\<open>ListDir\<close>, \<open>MakeDir\<close>, \<open>NewFile\<close>, \<open>ChangeDir\<close>, \<open>CurrentDir\<close>, \<open>Remove\<close>,
  \<open>Write\<close>, \<open>Read\<close>) parks on the lock as well, without effect.
\<close>

theorem Remove_directory_starves_engine:
  assumes "idle fs" and "Remove_target fs p = Some n" and "\<not> is_root_or_cwd fs n"
    and "meta n = IsDir d"
  shows "\<exists>b. Remove fs p = Blocks b \<and> writer (mu b)
           \<and> ListDir b q = Blocks b \<and> MakeDir b q = Blocks b \<and> NewFile b q = Blocks b
           \<and> ChangeDir b q = Blocks b \<and> CurrentDir b = Blocks b \<and> Remove b q = Blocks b
           \<and> Write b q src = Blocks b \<and> Read b q w = Blocks b"
proof -
  have "writer (mu (write_locked fs))"
    by (simp add: write_locked_def)
  then show ?thesis
    using Remove_directory_blocks [OF assms] held_blocks by metis
qed

theorem Remove_directory_starves_engine_witness:
  "idle fs_foo
   \<and> (\<exists>b. Remove fs_foo ''/foo'' = Blocks b \<and> writer (mu b)
         \<and> ListDir b ''/'' = Blocks b \<and> NewFile b ''/'' = Blocks b
         \<and> Read b ''/'' \<lparr>written = [], werr = None\<rparr> = Blocks b)"
proof -
  let ?foo = "\<lparr>nref = \<lparr>nid = 2, npath = ''/foo/''\<rparr>,
               meta = IsDir \<lparr>Dir_md = \<lparr>nt = dirType,
                                        node = \<lparr>nid = 2, npath = ''/foo/''\<rparr>\<rparr>\<rparr>\<rparr>"
  have t: "Remove_target fs_foo ''/foo'' = Some ?foo"
    by (simp add: Remove_target_def normalizePath_def normalizeDirPath_def isAbs_def
        HasSuffixSep_def findNode_abs fs_foo_entries Separator_def SeperatorStr_def Let_def)
  have c: "\<not> is_root_or_cwd fs_foo ?foo"
    by (simp add: is_root_or_cwd_def fs_foo_rest New_dirs)
  have m: "meta ?foo = IsDir \<lparr>Dir_md = \<lparr>nt = dirType,
                                         node = \<lparr>nid = 2, npath = ''/foo/''\<rparr>\<rparr>\<rparr>"
    by simp
  from Remove_directory_starves_engine
    [OF fs_foo_idle t c m, of "''/''" _ "\<lparr>written = [], werr = None\<rparr>"]
  show ?thesis
    using fs_foo_idle by blast
qed

section \<open>Move\<close>

lemma Move_unfold:
  assumes "idle fs"
  shows "Move fs src dst =
     (if validateName src \<noteq> None then Returns fs (Some ErrInvalidName)
      else if validateName dst \<noteq> None then Returns fs (Some ErrInvalidName)
      else (case findNode fs src of
              None \<Rightarrow> Returns fs (Some ErrNotFound)
            | Some srcNode \<Rightarrow>
                (case findNode fs dst of
                   Some dstNode \<Rightarrow> Returns fs (Some ErrAlreadyExist)
                 | None \<Rightarrow>
                     Returns (fs\<lparr>trie := fst (trie_Add
                        (trie_Remove (trie fs) (normalizePath fs src))
                        (normalizePath fs dst) (meta srcNode))\<rparr>) None)))"
proof -
  have l: "Lock (mu fs) = Some ((mu fs)\<lparr>writer := True\<rparr>)"
    using assms by (rule Lock_idle)
  have u: "unlock (fs\<lparr>mu := (mu fs)\<lparr>writer := True\<rparr>\<rparr>) = fs"
    using unlock_write_locked [OF assms] by (simp add: write_locked_def)
  have u': "\<And>t. unlock (fs\<lparr>mu := (mu fs)\<lparr>writer := True\<rparr>, trie := t\<rparr>) = fs\<lparr>trie := t\<rparr>"
    using assms by (simp add: unlock_def Unlock_def idle_def)
  show ?thesis
    by (auto simp: Move_def Let_def l u u' split: option.splits prod.splits)
qed







text \<open>
  A file moved onto the name of an existing directory written without the directory
  suffix is not rejected: the move succeeds and the file takes the name beside the
  directory.
\<close>

lemma Move_file_onto_directory_name:
  "\<exists>fs'. Move fs_afoo ''/a'' ''/foo'' = Returns fs' None
         \<and> is_file_node (findNode fs' ''/foo'') \<and> findNode fs' ''/foo/'' \<noteq> None
         \<and> findNode fs' ''/a'' = None"
proof -
  have v: "validateName ''/a'' = None" "validateName ''/foo'' = None"
    by (simp_all add: validateName_def Separator_def)
  show ?thesis
    using v
    by (simp add: Move_unfold [OF fs_afoo_idle] findNode_abs fs_afoo_entries
        normalizePath_def isAbs_def Separator_def trie_Add_def trie_Remove_def
        trie_fresh_def Let_def is_file_node_def)
qed

text \<open>
  \<open>Move\<close> has no guard for the root: moving \<open>/\<close> succeeds and leaves no node at \<open>/\<close>.
\<close>

lemma Move_relocates_root:
  "\<exists>fs'. Move New ''/'' ''/x'' = Returns fs' None \<and> findNode fs' ''/'' = None
         \<and> \<not> root_present fs'"
proof -
  have v: "validateName ''/'' = None" "validateName ''/x'' = None"
    by (simp_all add: validateName_def Separator_def)
  show ?thesis
    using v
    by (simp add: Move_unfold [OF New_idle] findNode_abs New_entries
        normalizePath_def isAbs_def Separator_def SeperatorStr_def trie_Add_def trie_Remove_def
        trie_fresh_def Let_def root_present_def)
qed

section \<open>Shard server: the range check\<close>

lemma validatePath_range:
  assumes "start s = [a]" and "endp s = [b]"
  shows "validatePath s (Separator # c # rest) =
           (if byte_lt c a \<or> byte_ge c b then Invalid ''path isn't intended for server''
            else Valid)"
  using assms by (simp add: validatePath_def IsAbs_def isAbs_def)

lemma validatePath_root: "validatePath s SeperatorStr = Valid"
  by (simp add: validatePath_def IsAbs_def isAbs_def SeperatorStr_def)

text \<open>
  The five handlers that call \<open>validatePath\<close> reject a path exactly when its first
  character after the separator is outside the range, and forward it otherwise.
\<close>

lemma guarded_range:
  assumes "start s = [a]" and "endp s = [b]"
  shows "guarded s (Separator # c # rest) call =
           (if byte_lt c a \<or> byte_ge c b
            then InvalidArgument
                   (invalid_path (Separator # c # rest) ''path isn't intended for server'')
            else Engine call)"
  using assms by (simp add: guarded_def validatePath_range)

lemma guarded_root: "guarded s SeperatorStr call = Engine call"
  by (simp add: guarded_def validatePath_root)

lemma Server_WriteFile_forwards:
  "p \<noteq> [] \<Longrightarrow>
     Server_WriteFile s (Recv (FilePayload_Path p)) reader = Engine (Write (srv_fs s) p reader)"
  by (simp add: Server_WriteFile_def)

text \<open>
  C7, on the code. For a server with the range from \<open>a\<close> to \<open>b\<close> and a path whose
  first character after the separator is outside it, \<open>ListDir\<close>, \<open>MakeDir\<close>,
  \<open>Remove\<close>, \<open>CreateFile\<close> and \<open>ReadFile\<close> answer invalid-argument without calling
  the engine, but \<open>WriteFile\<close> never checks the range: it hands the path to the
  engine's \<open>Write\<close>, and its answer is the engine's.
\<close>

theorem WriteFile_skips_range_check:
  assumes "start s = [a]" and "endp s = [b]" and "byte_lt c a \<or> byte_ge c b"
    and "p = Separator # c # rest"
  shows "Server_ListDir s p = InvalidArgument (invalid_path p ''path isn't intended for server'')
         \<and> Server_MakeDir s p = InvalidArgument (invalid_path p ''path isn't intended for server'')
         \<and> Server_Remove s p = InvalidArgument (invalid_path p ''path isn't intended for server'')
         \<and> Server_CreateFile s p =
             InvalidArgument (invalid_path p ''path isn't intended for server'')
         \<and> Server_ReadFile s p w =
             InvalidArgument (invalid_path p ''path isn't intended for server'')
         \<and> Server_WriteFile s (Recv (FilePayload_Path p)) reader =
             Engine (Write (srv_fs s) p reader)"
proof -
  have g: "guarded s p call =
             InvalidArgument (invalid_path p ''path isn't intended for server'')" for call :: "'x outcome"
    unfolding assms(4) guarded_range [OF assms(1,2)] using assms(3) by simp
  have "p \<noteq> []"
    using assms(4) by simp
  then show ?thesis
    unfolding Server_ListDir_def Server_MakeDir_def Server_Remove_def Server_CreateFile_def
      Server_ReadFile_def g
    by (simp add: Server_WriteFile_forwards)
qed

theorem WriteFile_skips_range_check_witness:
  "Server_New \<lparr>Opts_Port = 9800, Opts_StartPrefix = ''a'', Opts_EndPrefix = ''n''\<rparr> = Inr srv_an
   \<and> byte_ge CHR ''z'' CHR ''n''
   \<and> Server_ReadFile srv_an ''/zebra'' \<lparr>written = [], werr = None\<rparr> =
       InvalidArgument ''invalid path (/zebra). path isn't intended for server''
   \<and> Server_WriteFile srv_an (Recv (FilePayload_Path ''/zebra'')) (Reader ''foobar'' None) =
       Engine (Returns New (- 1, Some ErrNotFound))"
proof -
  have n: "Server_New \<lparr>Opts_Port = 9800, Opts_StartPrefix = ''a'', Opts_EndPrefix = ''n''\<rparr>
             = Inr srv_an"
    by (simp add: Server_New_def srv_an_def byte_lt_def)
  have s: "start srv_an = ''a''" "endp srv_an = ''n''" "srv_fs srv_an = New"
    by (simp_all add: srv_an_def)
  have r: "byte_lt CHR ''z'' CHR ''a'' \<or> byte_ge CHR ''z'' CHR ''n''"
    and r': "byte_ge CHR ''z'' CHR ''n''"
    by (simp_all add: byte_lt_def byte_ge_def)
  have p: "''/zebra'' = Separator # CHR ''z'' # ''ebra''"
    by (simp add: Separator_def)
  have missing: "findNode New ''/zebra'' = None"
    by (simp add: findNode_abs New_entries)
  then have nf: "\<not> is_file_node (findNode New ''/zebra'')"
    by (simp add: is_file_node_def)
  have free: "\<not> writer (mu New)"
    by (simp add: New_mu)
  have w: "Write New ''/zebra'' (Reader ''foobar'' None) = Returns New (- 1, Some ErrNotFound)"
    using not_a_file_outcomes(1) [OF free nf] missing by simp
  have
    "Server_ReadFile srv_an ''/zebra'' \<lparr>written = [], werr = None\<rparr> =
       InvalidArgument (invalid_path ''/zebra'' ''path isn't intended for server'')
     \<and> Server_WriteFile srv_an (Recv (FilePayload_Path ''/zebra'')) (Reader ''foobar'' None) =
       Engine (Write (srv_fs srv_an) ''/zebra'' (Reader ''foobar'' None))"
    using WriteFile_skips_range_check [OF s(1) s(2) r p] by blast
  then show ?thesis
    using n r' w by (simp add: s invalid_path_def)
qed

section \<open>Shard router: the lookup\<close>

lemma clientsLoop_root: "clientsLoop tbl SeperatorStr acc = Found (acc @ map Addr tbl)"
  by (induction tbl arbitrary: acc) (simp_all add: IsAbs_def isAbs_def SeperatorStr_def)

lemma clientsLoop_not_abs:
  "tbl \<noteq> [] \<Longrightarrow> \<not> IsAbs path \<Longrightarrow> clientsLoop tbl path acc = Fails (Errorf ''path must be absolute'')"
  by (cases tbl) simp_all

text \<open>
  For a table whose bounds are not empty and an absolute path other than the root, the
  loop collects the addresses of exactly the entries whose range holds the first
  character after the separator, in the order of the table.
\<close>

lemma clientsLoop_range:
  assumes "\<forall>sv \<in> set tbl. StartPrefix sv \<noteq> [] \<and> EndPrefix sv \<noteq> []"
  shows "clientsLoop tbl (Separator # c # rest) acc =
           Found (acc @ map Addr
             (filter (\<lambda>sv. byte_ge c (hd (StartPrefix sv)) \<and> byte_lt c (hd (EndPrefix sv)))
                tbl))"
  using assms
proof (induction tbl arbitrary: acc)
  case Nil
  then show ?case by simp
next
  case (Cons sv tbl)
  then obtain a as b bs where "StartPrefix sv = a # as" "EndPrefix sv = b # bs"
    by (cases "StartPrefix sv"; cases "EndPrefix sv") auto
  with Cons show ?case
    by (simp add: IsAbs_def isAbs_def SeperatorStr_def)
qed

lemma clientsForPath_root:
  "clientsForPath c SeperatorStr = Found (map (clients c) (map Addr (servers c)))"
  by (simp add: clientsForPath_def clientsLoop_root)

lemma clientsForPath_range:
  assumes "\<forall>sv \<in> set (servers c). StartPrefix sv \<noteq> [] \<and> EndPrefix sv \<noteq> []"
  shows "clientsForPath c (Separator # ch # rest) =
           Found (map (clients c) (map Addr
             (filter (\<lambda>sv. byte_ge ch (hd (StartPrefix sv)) \<and> byte_lt ch (hd (EndPrefix sv)))
                (servers c))))"
  by (simp add: clientsForPath_def clientsLoop_range [OF assms])

text \<open>
  C8, on the code. The test for an absolute path sits inside the loop over the shard
  table, so with an empty table no path is rejected, absolute or not: the lookup
  answers with no shard and no error. With a table that has an entry, a path that is
  not absolute is rejected.
\<close>

theorem clientsForPath_empty_table:
  "(servers c = [] \<longrightarrow> clientsForPath c path = Found [])
   \<and> (servers c \<noteq> [] \<and> \<not> IsAbs path
        \<longrightarrow> clientsForPath c path = Fails (Errorf ''path must be absolute''))"
  using clientsLoop_not_abs [of "servers c" path "[]"]
  by (auto simp: clientsForPath_def)

theorem clientsForPath_empty_table_witness:
  "\<not> IsAbs ''foo''
   \<and> clientsForPath \<lparr>servers = [], clients = (\<lambda>a. None :: nat option)\<rparr> ''foo'' = Found []
   \<and> clientsForPath
        \<lparr>servers = [\<lparr>StartPrefix = ''a'', EndPrefix = ''n'', Addr = ''localhost:9800''\<rparr>],
         clients = (\<lambda>a. None :: nat option)\<rparr> ''foo''
       = Fails (Errorf ''path must be absolute'')"
proof -
  have a: "\<not> IsAbs ''foo''"
    by (simp add: IsAbs_def isAbs_def Separator_def)
  show ?thesis
    using a
      clientsForPath_empty_table
        [of "\<lparr>servers = [], clients = (\<lambda>a. None :: nat option)\<rparr>" "''foo''"]
      clientsForPath_empty_table
        [of "\<lparr>servers = [\<lparr>StartPrefix = ''a'', EndPrefix = ''n'',
                             Addr = ''localhost:9800''\<rparr>],
              clients = (\<lambda>a. None :: nat option)\<rparr>" "''foo''"]
    by simp
qed

end
